theory Spec2Isabelle
  imports Complex_Main
begin

section \<open>The file-input widget and the form schema\<close>

text \<open>
  The repository has two units: the \<open>FileInput\<close> component (click and drag-and-drop file
  selection, a simulated upload progress bar, one entry written into the shared form
  state) and \<open>formSchemas.ts\<close> (the initial values and the validation ruleset of the
  import form). The component is modelled by explicit state passing: the hooks
  \<open>dragging\<close>, \<open>fileInfo\<close> and \<open>uploadProgress\<close>, the form values held by the form-state
  container, and the interval timers started by \<open>simulateUpload\<close> are the fields of one
  state record, and every event handler is a function from state to state.
\<close>

subsection \<open>Values\<close>

text \<open>
  A browser file handle exposes a name and a size in bytes; nothing else of it is read.
  The size is a non-negative integer.
\<close>

record File =
  file_name :: string
  file_size :: nat

text \<open>The local descriptor \<open>{ name: string; size: number }\<close> kept by \<open>useState\<close>.\<close>

record file_info =
  name :: string
  size_bytes :: nat

text \<open>
  The values a form field can hold: \<open>undefined\<close>, \<open>null\<close>, a string, a boolean or a
  file object.
\<close>

datatype jsval = Undefined | Null | Str string | Bool bool | FileV File

text \<open>\<open>files[0]\<close> on a file list: the first file, \<open>undefined\<close> when the list is empty.\<close>

fun index0 :: "File list \<Rightarrow> jsval" where
  "index0 [] = Undefined"
| "index0 (f # fs) = FileV f"

subsection \<open>Component state\<close>

text \<open>
  \<open>intervals\<close> maps the identifier of every active interval timer to the current value of
  the \<open>progress\<close> variable its callback closes over; \<open>nextInterval\<close> is the identifier
  the next \<open>setInterval\<close> returns. \<open>formValues\<close> is the value set of the form-state
  container, read by field name.
\<close>

record state =
  dragging :: bool
  fileInfo :: "file_info option"
  uploadProgress :: nat
  formValues :: "string \<Rightarrow> jsval"
  intervals :: "nat \<Rightarrow> nat option"
  nextInterval :: nat

definition setDragging :: "bool \<Rightarrow> state \<Rightarrow> state" where
  "setDragging b s = s\<lparr>dragging := b\<rparr>"

definition setFileInfo :: "file_info option \<Rightarrow> state \<Rightarrow> state" where
  "setFileInfo fi s = s\<lparr>fileInfo := fi\<rparr>"

definition setUploadProgress :: "nat \<Rightarrow> state \<Rightarrow> state" where
  "setUploadProgress p s = s\<lparr>uploadProgress := p\<rparr>"

text \<open>
  The setter of the form-state container (an external collaborator): it writes the value
  of one field, by name, and leaves every other field as it is.
\<close>

definition setFieldValue :: "string \<Rightarrow> jsval \<Rightarrow> state \<Rightarrow> state" where
  "setFieldValue fld v s = s\<lparr>formValues := (formValues s)(fld := v)\<rparr>"

subsection \<open>The simulated upload\<close>

text \<open>
  \<open>simulateUpload\<close> declares \<open>let progress = 0\<close> and registers a repeating timer whose
  callback is \<open>tick\<close>. It does not touch \<open>uploadProgress\<close> and cancels no earlier timer.
\<close>

definition simulateUpload :: "state \<Rightarrow> state" where
  "simulateUpload s =
     s\<lparr>intervals := (intervals s)(nextInterval s \<mapsto> 0),
       nextInterval := Suc (nextInterval s)\<rparr>"

definition clearInterval :: "nat \<Rightarrow> state \<Rightarrow> state" where
  "clearInterval i s = s\<lparr>intervals := (intervals s)(i := None)\<rparr>"

text \<open>
  One firing of the timer \<open>i\<close>: \<open>progress += 10; setUploadProgress(progress);
  if (progress >= 100) clearInterval(interval)\<close>. A timer that is not active does not
  fire, so the state stays as it is.
\<close>

definition tick :: "nat \<Rightarrow> state \<Rightarrow> state" where
  "tick i s =
     (case intervals s i of
        None \<Rightarrow> s
      | Some progress \<Rightarrow>
          (let progress' = progress + 10;
               s1 = s\<lparr>intervals := (intervals s)(i \<mapsto> progress')\<rparr>;
               s2 = setUploadProgress progress' s1
           in if progress' \<ge> 100 then clearInterval i s2 else s2))"

subsection \<open>Event handlers\<close>

text \<open>
  \<open>handleChange\<close>: the argument \<open>files\<close> is \<open>event.target.files\<close>, a file list or
  \<open>null\<close>; \<open>fld\<close> is \<open>props.name\<close>. The form value is written before the test of
  \<open>file\<close>, whatever \<open>file\<close> is. The test \<open>if (file)\<close> succeeds on a file object and
  fails on \<open>null\<close> and \<open>undefined\<close>.
\<close>

definition handleChange :: "string \<Rightarrow> File list option \<Rightarrow> state \<Rightarrow> state" where
  "handleChange fld files s =
     (let file = (case files of None \<Rightarrow> Null | Some fl \<Rightarrow> index0 fl);
          s1 = setFieldValue fld file s
      in case file of
           FileV f \<Rightarrow>
             simulateUpload (setUploadProgress 0
               (setFileInfo (Some \<lparr>name = file_name f, size_bytes = file_size f\<rparr>) s1))
         | _ \<Rightarrow> s1)"

text \<open>
  \<open>handleDrop\<close>: the argument is \<open>event.dataTransfer.files\<close>. The hovering flag is
  cleared first; the progress reset and the timer start sit outside the inner test of
  \<open>file\<close>, as in the source.
\<close>

definition handleDrop :: "string \<Rightarrow> File list \<Rightarrow> state \<Rightarrow> state" where
  "handleDrop fld files s =
     (let s1 = setDragging False s
      in if length files > 0 then
           (let file = index0 files;
                s2 = (case file of
                        FileV f \<Rightarrow>
                          setFieldValue fld file
                            (setFileInfo (Some \<lparr>name = file_name f, size_bytes = file_size f\<rparr>) s1)
                      | _ \<Rightarrow> s1)
            in simulateUpload (setUploadProgress 0 s2))
         else s1)"

definition handleDragOver :: "state \<Rightarrow> state" where
  "handleDragOver s = (if \<not> dragging s then setDragging True s else s)"

definition handleDragLeave :: "state \<Rightarrow> state" where
  "handleDragLeave s = setDragging False s"

text \<open>
  \<open>handleClick\<close> opens the native file dialog through the hidden input; the component
  state is not touched (a later choice arrives as a change event).
\<close>

definition handleClick :: "state \<Rightarrow> state" where
  "handleClick s = s"

subsection \<open>Runs of events\<close>

text \<open>
  The component runs on a single-threaded event loop: one handler or one timer callback
  at a time, each to completion. An event is a change of the hidden input, a drop, a
  drag-over, a drag-leave, a click, or one firing of the timer with a given identifier.
\<close>

datatype event =
  Change "File list option" | Drop "File list" | DragOver | DragLeave | Click | Tick nat

fun step :: "string \<Rightarrow> state \<Rightarrow> event \<Rightarrow> state" where
  "step fld s (Change files) = handleChange fld files s"
| "step fld s (Drop files) = handleDrop fld files s"
| "step fld s DragOver = handleDragOver s"
| "step fld s DragLeave = handleDragLeave s"
| "step fld s Click = handleClick s"
| "step fld s (Tick i) = tick i s"

definition run :: "string \<Rightarrow> event list \<Rightarrow> state \<Rightarrow> state" where
  "run fld es s = foldl (step fld) s es"

text \<open>
  An event supplies a file when it is a change or a drop with a non-empty file list:
  these are the events that reset the progress and start a timer.
\<close>

fun supplies_file :: "event \<Rightarrow> bool" where
  "supplies_file (Change (Some (f # fs))) = True"
| "supplies_file (Drop (f # fs)) = True"
| "supplies_file e = False"

text \<open>
  The timer \<open>i\<close> is undisturbed in a list of events when no event of the list supplies a
  file and no timer other than \<open>i\<close> fires in it.
\<close>

fun disturbs :: "nat \<Rightarrow> event \<Rightarrow> bool" where
  "disturbs i (Tick j) = (j \<noteq> i)"
| "disturbs i e = supplies_file e"

definition undisturbed :: "nat \<Rightarrow> event list \<Rightarrow> bool" where
  "undisturbed i es = list_all (\<lambda>e. \<not> disturbs i e) es"

subsection \<open>The file-info display\<close>

text \<open>
  \<open>Math.round\<close> returns the integer nearest to its argument, the larger one when two are
  equally near. Its argument here is \<open>fileInfo.size / 1024\<close>: the size is an integer and
  1024 is a power of two, so the floating-point quotient is the exact quotient, and the
  real numbers model it without loss.
\<close>

definition Math_round :: "real \<Rightarrow> int" where
  "Math_round x = \<lfloor>x + 1 / 2\<rfloor>"

text \<open>
  What the block under \<open>{fileInfo && (...)}\<close> shows: the file name, the number printed
  before \<open>KB\<close>, and the width of the progress bar in percent. Nothing is shown while
  \<open>fileInfo\<close> is \<open>null\<close>.
\<close>

record file_info_view =
  shown_name :: string
  shown_kb :: int
  bar_width :: nat

definition renderFileInfo :: "state \<Rightarrow> file_info_view option" where
  "renderFileInfo s =
     (case fileInfo s of
        None \<Rightarrow> None
      | Some fi \<Rightarrow>
          Some \<lparr>shown_name = name fi,
                shown_kb = Math_round (real (size_bytes fi) / 1024),
                bar_width = uploadProgress s\<rparr>)"

subsection \<open>The form schema\<close>

text \<open>\<open>initialValues\<close>, field by field, in the order of the source.\<close>

definition initialValues :: "(string \<times> jsval) list" where
  "initialValues =
     [(''importName'', Str []),
      (''manifestFile'', Null),
      (''splitSchedule'', Str []),
      (''client'', Str []),
      (''testingCenter1'', Str []),
      (''testingCenter2'', Str []),
      (''testingCenter3'', Str []),
      (''testingCenter4'', Str []),
      (''toleranceWindow'', Bool False)]"

text \<open>
  A field's schema is the constructor it starts from (\<open>Yup.string()\<close>, \<open>Yup.mixed()\<close>,
  \<open>Yup.boolean()\<close>) and the chain of rules applied to it, in the order they are written.
\<close>

datatype schema_type = string_schema | mixed_schema | boolean_schema

datatype rule = required string | oneOf "jsval list" string | nullable

type_synonym field_schema = "schema_type \<times> rule list"

definition validationSchema :: "(string \<times> field_schema) list" where
  "validationSchema =
     [(''importName'',
         (string_schema,
          [required ''Import name is required'',
           oneOf [Str ''Import ABC'', Str ''Import DEF'', Str ''Import GHI'']
             ''Invalid Import Name''])),
      (''manifestFile'', (mixed_schema, [required ''A file is required'', nullable])),
      (''splitSchedule'',
         (string_schema,
          [required ''This field is required'', oneOf [Str ''Yes'', Str ''No''] ''Invalid Option''])),
      (''client'',
         (string_schema,
          [required ''Client selection is required'',
           oneOf [Str ''Single'', Str ''Multiple''] ''Invalid Client Type''])),
      (''toleranceWindow'',
         (boolean_schema, [required ''Tolerance window selection is required'']))]"

text \<open>The four testing-center fields.\<close>

definition testingCenters :: "string list" where
  "testingCenters =
     [''testingCenter1'', ''testingCenter2'', ''testingCenter3'', ''testingCenter4'']"

subsection \<open>The validation engine\<close>

text \<open>
  A failed validation is one of two kinds, each carrying the message the rule was
  declared with: a required field that is not satisfied, or a value that is not in the
  allowed set.
\<close>

datatype validation_error = RequiredError string | InvalidOptionError string

text \<open>
  Modelled from the spec: the engine that interprets the ruleset is an external library,
  absent from the sources; the repository only declares the rules. What satisfies
  \<open>required\<close>: every boolean and every file object; a string unless it is empty; neither
  the unset value nor \<open>null\<close>.
\<close>

fun satisfies_required :: "schema_type \<Rightarrow> jsval \<Rightarrow> bool" where
  "satisfies_required t Undefined = False"
| "satisfies_required t Null = False"
| "satisfies_required string_schema (Str s) = (s \<noteq> [])"
| "satisfies_required t v = True"

text \<open>
  Modelled from the spec: the meaning of one rule, absent from the sources. \<open>required\<close>
  fails on a value that does not satisfy it; \<open>oneOf\<close> fails on a value outside the
  allowed labels; \<open>nullable\<close> lets the field hold \<open>null\<close> as its empty representation
  and fails on nothing (the \<open>null\<close> still does not satisfy \<open>required\<close>).
\<close>

fun check_rule :: "schema_type \<Rightarrow> rule \<Rightarrow> jsval \<Rightarrow> validation_error option" where
  "check_rule t (required msg) v =
     (if satisfies_required t v then None else Some (RequiredError msg))"
| "check_rule t (oneOf allowed msg) v =
     (if v \<in> set allowed then None else Some (InvalidOptionError msg))"
| "check_rule t nullable v = None"

text \<open>
  Modelled from the spec: the engine's evaluation of the rules of one field, absent from
  the sources. The spec names no order; the rules are taken in the order they are
  declared, and the first failure is the field's error.
\<close>

fun first_error :: "schema_type \<Rightarrow> rule list \<Rightarrow> jsval \<Rightarrow> validation_error option" where
  "first_error t [] v = None"
| "first_error t (r # rs) v =
     (case check_rule t r v of Some e \<Rightarrow> Some e | None \<Rightarrow> first_error t rs v)"

text \<open>
  Modelled from the spec: the engine's entry point, absent from the sources. Validation
  is per field; a field the ruleset does not mention is not validated. \<open>None\<close> means
  that the value passes.
\<close>

definition validateField ::
  "(string \<times> field_schema) list \<Rightarrow> string \<Rightarrow> jsval \<Rightarrow> validation_error option" where
  "validateField schema fld v =
     (case map_of schema fld of None \<Rightarrow> None | Some (t, rules) \<Rightarrow> first_error t rules v)"

subsection \<open>The component when it is first rendered\<close>

text \<open>
  The hooks start at \<open>false\<close>, \<open>null\<close> and \<open>0\<close>; the form holds \<open>initialValues\<close>
  (a field it does not hold reads as \<open>undefined\<close>); no timer runs.
\<close>

definition initialState :: state where
  "initialState =
     \<lparr>dragging = False, fileInfo = None, uploadProgress = 0,
      formValues = (\<lambda>fld. case map_of initialValues fld of None \<Rightarrow> Undefined | Some v \<Rightarrow> v),
      intervals = Map.empty, nextInterval = 0\<rparr>"

subsection \<open>What each handler leaves behind\<close>

lemma handleChange_file:
  "handleChange fld (Some (f # fs)) s =
     s\<lparr>fileInfo := Some \<lparr>name = file_name f, size_bytes = file_size f\<rparr>,
       uploadProgress := 0,
       formValues := (formValues s)(fld := FileV f),
       intervals := (intervals s)(nextInterval s \<mapsto> 0),
       nextInterval := Suc (nextInterval s)\<rparr>"
  by (simp add: handleChange_def setFieldValue_def setFileInfo_def setUploadProgress_def
      simulateUpload_def)

lemma handleDrop_file:
  "handleDrop fld (f # fs) s =
     s\<lparr>dragging := False,
       fileInfo := Some \<lparr>name = file_name f, size_bytes = file_size f\<rparr>,
       uploadProgress := 0,
       formValues := (formValues s)(fld := FileV f),
       intervals := (intervals s)(nextInterval s \<mapsto> 0),
       nextInterval := Suc (nextInterval s)\<rparr>"
  by (simp add: handleDrop_def setDragging_def setFieldValue_def setFileInfo_def
      setUploadProgress_def simulateUpload_def)

lemma handleChange_null:
  "handleChange fld None s = s\<lparr>formValues := (formValues s)(fld := Null)\<rparr>"
  by (simp add: handleChange_def setFieldValue_def)

lemma handleChange_empty:
  "handleChange fld (Some []) s = s\<lparr>formValues := (formValues s)(fld := Undefined)\<rparr>"
  by (simp add: handleChange_def setFieldValue_def)

lemma handleDrop_empty: "handleDrop fld [] s = s\<lparr>dragging := False\<rparr>"
  by (simp add: handleDrop_def setDragging_def)

subsection \<open>The timer of one selection\<close>

lemma tick_running:
  assumes "intervals t i = Some p" and "p + 10 < 100"
  shows "uploadProgress (tick i t) = p + 10 \<and> intervals (tick i t) i = Some (p + 10)"
  using assms by (simp add: tick_def Let_def setUploadProgress_def clearInterval_def)

lemma tick_last:
  assumes "intervals t i = Some p" and "100 \<le> p + 10"
  shows "uploadProgress (tick i t) = p + 10 \<and> intervals (tick i t) i = None"
  using assms by (simp add: tick_def Let_def setUploadProgress_def clearInterval_def)

lemma tick_stopped: "intervals t i = None \<Longrightarrow> tick i t = t"
  by (simp add: tick_def)

text \<open>
  The timer alone: \<open>k\<close> firings in a row of a timer that starts at 0, in a state whose
  displayed progress is 0.
\<close>

lemma ticks_of_fresh_timer:
  assumes "uploadProgress t = 0" and "intervals t i = Some 0"
  shows "uploadProgress ((tick i ^^ k) t) = 10 * min k 10
         \<and> intervals ((tick i ^^ k) t) i = (if k < 10 then Some (10 * k) else None)"
proof (induction k)
  case 0
  show ?case using assms by simp
next
  case (Suc k)
  let ?u = "(tick i ^^ k) t"
  have step: "(tick i ^^ Suc k) t = tick i ?u" by simp
  show ?case
  proof (cases "k < 10")
    case True
    with Suc have run: "intervals ?u i = Some (10 * k)" by simp
    show ?thesis
    proof (cases "k < 9")
      case True
      then have "10 * k + 10 < 100" by simp
      from tick_running [OF run this] True show ?thesis unfolding step by simp
    next
      case False
      with \<open>k < 10\<close> have "100 \<le> 10 * k + 10" by simp
      from tick_last [OF run this] False \<open>k < 10\<close> show ?thesis unfolding step by simp
    qed
  next
    case False
    with Suc have "intervals ?u i = None" by simp
    from tick_stopped [OF this] Suc False show ?thesis unfolding step by simp
  qed
qed

text \<open>
  The timer among other events. Identifiers are handed out in increasing order, so no
  later \<open>setInterval\<close> reuses the identifier of a timer that was started, and no event other
  than its own firing touches the \<open>progress\<close> variable of a timer.
\<close>

lemma nextInterval_mono: "nextInterval t \<le> nextInterval (step fld t e)"
proof (cases e)
  case (Change files)
  then show ?thesis
    by (simp add: handleChange_def setFieldValue_def setFileInfo_def setUploadProgress_def
        simulateUpload_def Let_def split: option.split jsval.split)
next
  case (Drop files)
  then show ?thesis
    by (simp add: handleDrop_def setDragging_def setFieldValue_def setFileInfo_def
        setUploadProgress_def simulateUpload_def Let_def split: jsval.split)
next
  case (Tick j)
  then show ?thesis
    by (simp add: tick_def setUploadProgress_def clearInterval_def Let_def split: option.split)
qed (simp_all add: handleDragOver_def handleDragLeave_def handleClick_def setDragging_def)

lemma step_other_timer:
  assumes "i < nextInterval t" and "e \<noteq> Tick i"
  shows "intervals (step fld t e) i = intervals t i"
proof (cases e)
  case (Change files)
  with assms(1) show ?thesis
    by (simp add: handleChange_def setFieldValue_def setFileInfo_def setUploadProgress_def
        simulateUpload_def Let_def split: option.split jsval.split)
next
  case (Drop files)
  with assms(1) show ?thesis
    by (simp add: handleDrop_def setDragging_def setFieldValue_def setFileInfo_def
        setUploadProgress_def simulateUpload_def Let_def split: jsval.split)
next
  case (Tick j)
  with assms(2) have "j \<noteq> i" by simp
  with Tick show ?thesis
    by (simp add: tick_def setUploadProgress_def clearInterval_def Let_def split: option.split)
qed (simp_all add: handleDragOver_def handleDragLeave_def handleClick_def setDragging_def)

lemma run_snoc: "run fld (es @ [e]) t = step fld (run fld es t) e"
  by (simp add: run_def)

lemma nextInterval_run: "nextInterval t \<le> nextInterval (run fld es t)"
proof (induction es rule: rev_induct)
  case Nil
  show ?case by (simp add: run_def)
next
  case (snoc e es)
  from snoc nextInterval_mono [of "run fld es t" fld e] show ?case
    unfolding run_snoc by (rule order_trans)
qed

lemma own_progress_in_run:
  assumes "intervals t i = Some 0" and "i < nextInterval t"
  shows "intervals (run fld es t) i
           = (if count_list es (Tick i) < 10 then Some (10 * count_list es (Tick i)) else None)"
proof (induction es rule: rev_induct)
  case Nil
  show ?case using assms(1) by (simp add: run_def)
next
  case (snoc e es)
  let ?u = "run fld es t"
  let ?c = "count_list es (Tick i)"
  have below: "i < nextInterval ?u"
    using assms(2) nextInterval_run [of t fld es] by simp
  show ?case
  proof (cases "e = Tick i")
    case False
    from step_other_timer [OF below False] snoc False show ?thesis
      unfolding run_snoc by simp
  next
    case True
    have step_eq: "step fld ?u e = tick i ?u" using True by simp
    show ?thesis
    proof (cases "?c < 10")
      case c10: True
      with snoc have act: "intervals ?u i = Some (10 * ?c)" by simp
      show ?thesis
      proof (cases "?c < 9")
        case True
        then have "10 * ?c + 10 < 100" by simp
        from tick_running [OF act this] True \<open>e = Tick i\<close> show ?thesis
          unfolding run_snoc step_eq by simp
      next
        case False
        with c10 have "100 \<le> 10 * ?c + 10" by simp
        from tick_last [OF act this] False c10 \<open>e = Tick i\<close> show ?thesis
          unfolding run_snoc step_eq by simp
      qed
    next
      case False
      with snoc have "intervals ?u i = None" by simp
      from tick_stopped [OF this] snoc False \<open>e = Tick i\<close> show ?thesis
        unfolding run_snoc step_eq by simp
    qed
  qed
qed

lemma own_tick_displayed:
  assumes "intervals t i = Some 0" and "i < nextInterval t"
    and "count_list es (Tick i) < 10"
  shows "uploadProgress (run fld (es @ [Tick i]) t) = 10 * count_list es (Tick i) + 10"
proof -
  from own_progress_in_run [OF assms(1,2), of fld es] assms(3)
  have act: "intervals (run fld es t) i = Some (10 * count_list es (Tick i))" by simp
  show ?thesis
    unfolding run_snoc using act
    by (simp add: tick_def setUploadProgress_def clearInterval_def Let_def)
qed

text \<open>
  What the component shows is the value written by the latest firing of any timer, or the
  0 written by the latest event that supplied a file. No other event touches it.
\<close>

lemma quiet_step_display:
  assumes "\<not> disturbs i e" and "e \<noteq> Tick i"
  shows "uploadProgress (step fld t e) = uploadProgress t"
proof (cases e)
  case (Change files)
  with assms(1) have "files = None \<or> files = Some []"
    by (cases files) (auto elim: supplies_file.elims)
  with Change show ?thesis by (auto simp add: handleChange_null handleChange_empty)
next
  case (Drop files)
  with assms(1) have "files = []" by (cases files) auto
  with Drop show ?thesis by (simp add: handleDrop_empty)
next
  case (Tick j)
  with assms show ?thesis by simp
qed (simp_all add: handleDragOver_def handleDragLeave_def handleClick_def setDragging_def)

lemma undisturbed_snoc:
  "undisturbed i (es @ [e]) = (undisturbed i es \<and> \<not> disturbs i e)"
  by (simp add: undisturbed_def)

text \<open>
  While the timer is undisturbed, the value shown is the timer's own \<open>progress\<close>: ten times
  the number of its firings, and 100 from the tenth on.
\<close>

lemma undisturbed_display:
  assumes "uploadProgress t = 0" and "intervals t i = Some 0" and "i < nextInterval t"
  shows "undisturbed i es \<Longrightarrow>
         uploadProgress (run fld es t) = 10 * min (count_list es (Tick i)) 10"
proof (induction es rule: rev_induct)
  case Nil
  show ?case using assms(1) by (simp add: run_def)
next
  case (snoc e es)
  let ?u = "run fld es t"
  let ?c = "count_list es (Tick i)"
  from snoc.prems have quiet: "undisturbed i es" and e: "\<not> disturbs i e"
    by (simp_all add: undisturbed_snoc)
  from snoc.IH [OF quiet] have shown: "uploadProgress ?u = 10 * min ?c 10" .
  note own = own_progress_in_run [OF assms(2,3), of fld es]
  show ?case
  proof (cases "e = Tick i")
    case False
    from quiet_step_display [OF e False] shown False show ?thesis
      unfolding run_snoc by simp
  next
    case True
    have step_eq: "step fld ?u e = tick i ?u" using True by simp
    show ?thesis
    proof (cases "?c < 10")
      case c10: True
      with own have act: "intervals ?u i = Some (10 * ?c)" by simp
      have "uploadProgress (tick i ?u) = 10 * ?c + 10"
        using act by (simp add: tick_def Let_def setUploadProgress_def clearInterval_def)
      with c10 True show ?thesis unfolding run_snoc step_eq by simp
    next
      case False
      with own have "intervals ?u i = None" by simp
      from tick_stopped [OF this] shown False True show ?thesis
        unfolding run_snoc step_eq by simp
    qed
  qed
qed

lemma undisturbed_display_mono:
  assumes "uploadProgress t = 0" and "intervals t i = Some 0" and "i < nextInterval t"
    and "undisturbed i (es @ es')"
  shows "uploadProgress (run fld es t) \<le> uploadProgress (run fld (es @ es') t)"
proof -
  from assms(4) have "undisturbed i es" by (simp add: undisturbed_def)
  from undisturbed_display [OF assms(1-3) this] undisturbed_display [OF assms(1-3) assms(4)]
  show ?thesis by simp
qed

subsection \<open>Rounding\<close>

lemma Math_round_round: "Math_round x = round x"
  by (simp add: Math_round_def round_def)

text \<open>In whole numbers: add half a kilobyte, then divide and drop the remainder.\<close>

lemma Math_round_div: "Math_round (real n / 1024) = int ((n + 512) div 1024)"
proof -
  have "real n / 1024 + 1 / 2 = real (n + 512) / real 1024" by (simp add: field_simps)
  then have "Math_round (real n / 1024) = \<lfloor>real (n + 512) / real 1024\<rfloor>"
    by (simp only: Math_round_def)
  also have "\<dots> = int ((n + 512) div 1024)"
    by (simp only: floor_divide_of_nat_eq)
  finally show ?thesis .
qed

lemma Math_round_half_up:
  "Math_round (real 511 / 1024) = 0 \<and> Math_round (real 512 / 1024) = 1
   \<and> Math_round (real 1536 / 1024) = 2"
  using Math_round_div [of 511] Math_round_div [of 512] Math_round_div [of 1536] by simp

section \<open>The claims\<close>

subsection \<open>C1: no file chosen, empty drop\<close>

text \<open>
  C1 as written fails for \<open>handleChange\<close>: when a file is already selected and the
  selection control then returns an empty list (or \<open>null\<close>), the form-state entry of the
  field is overwritten with \<open>undefined\<close> (or \<open>null\<close>), so it is not left unchanged.
\<close>

theorem no_file_chosen_counterexample:
  "formValues
     (handleChange ''manifestFile'' (Some [])
        (handleChange ''manifestFile''
           (Some [\<lparr>file_name = ''manifest.csv'', file_size = 2048\<rparr>]) initialState))
     ''manifestFile''
   \<noteq> formValues
       (handleChange ''manifestFile''
          (Some [\<lparr>file_name = ''manifest.csv'', file_size = 2048\<rparr>]) initialState)
       ''manifestFile''
   \<and> formValues
       (handleChange ''manifestFile'' None
          (handleChange ''manifestFile''
             (Some [\<lparr>file_name = ''manifest.csv'', file_size = 2048\<rparr>]) initialState))
       ''manifestFile''
     \<noteq> formValues
         (handleChange ''manifestFile''
            (Some [\<lparr>file_name = ''manifest.csv'', file_size = 2048\<rparr>]) initialState)
         ''manifestFile''"
  by (simp add: handleChange_null handleChange_empty handleChange_file)

text \<open>
  C1, as amended. \<open>handleChange\<close> with a \<open>null\<close> or empty file list leaves \<open>fileInfo\<close> and
  \<open>uploadProgress\<close> unchanged and starts no timer, but it writes the no-file value into
  the form-state entry of the field: \<open>null\<close> for a \<open>null\<close> list, \<open>undefined\<close> for an
  empty list. \<open>handleDrop\<close> with an empty payload leaves \<open>fileInfo\<close>, \<open>uploadProgress\<close> and
  every form value unchanged; it only clears the hovering flag.
\<close>

theorem no_file_chosen_effect:
  "handleChange fld None s = s\<lparr>formValues := (formValues s)(fld := Null)\<rparr>
   \<and> fileInfo (handleChange fld None s) = fileInfo s
   \<and> uploadProgress (handleChange fld None s) = uploadProgress s
   \<and> formValues (handleChange fld None s) fld = Null
   \<and> handleChange fld (Some []) s = s\<lparr>formValues := (formValues s)(fld := Undefined)\<rparr>
   \<and> fileInfo (handleChange fld (Some []) s) = fileInfo s
   \<and> uploadProgress (handleChange fld (Some []) s) = uploadProgress s
   \<and> formValues (handleChange fld (Some []) s) fld = Undefined
   \<and> handleDrop fld [] s = s\<lparr>dragging := False\<rparr>
   \<and> fileInfo (handleDrop fld [] s) = fileInfo s
   \<and> uploadProgress (handleDrop fld [] s) = uploadProgress s
   \<and> formValues (handleDrop fld [] s) = formValues s"
  by (simp add: handleChange_null handleChange_empty handleDrop_empty)

subsection \<open>C2: the progress animation\<close>

text \<open>
  C2 as written fails for a selection made while the timer of an earlier selection is
  still running: nothing cancels the older timer, and every firing of either timer
  overwrites the value shown. Below, a first file is chosen and its timer (identifier 0)
  fires five times; then a second file is chosen, which shows 0 and starts the timer 1.
  The next firing of the timer 0 shows 60, the firing of the timer 1 after it shows 10,
  then 70 and 20 follow: after the second selection a tick adds 60 and not 10, and the
  values shown decrease.
\<close>

theorem upload_progress_animation_counterexample:
  "uploadProgress
     (run ''manifestFile''
        [Change (Some [\<lparr>file_name = ''a.csv'', file_size = 1\<rparr>]),
         Tick 0, Tick 0, Tick 0, Tick 0, Tick 0,
         Change (Some [\<lparr>file_name = ''b.csv'', file_size = 2\<rparr>])] initialState) = 0
   \<and> uploadProgress
     (run ''manifestFile''
        [Change (Some [\<lparr>file_name = ''a.csv'', file_size = 1\<rparr>]),
         Tick 0, Tick 0, Tick 0, Tick 0, Tick 0,
         Change (Some [\<lparr>file_name = ''b.csv'', file_size = 2\<rparr>]),
         Tick 0] initialState) = 60
   \<and> uploadProgress
     (run ''manifestFile''
        [Change (Some [\<lparr>file_name = ''a.csv'', file_size = 1\<rparr>]),
         Tick 0, Tick 0, Tick 0, Tick 0, Tick 0,
         Change (Some [\<lparr>file_name = ''b.csv'', file_size = 2\<rparr>]),
         Tick 0, Tick 1] initialState) = 10
   \<and> uploadProgress
     (run ''manifestFile''
        [Change (Some [\<lparr>file_name = ''a.csv'', file_size = 1\<rparr>]),
         Tick 0, Tick 0, Tick 0, Tick 0, Tick 0,
         Change (Some [\<lparr>file_name = ''b.csv'', file_size = 2\<rparr>]),
         Tick 0, Tick 1, Tick 0] initialState) = 70
   \<and> uploadProgress
     (run ''manifestFile''
        [Change (Some [\<lparr>file_name = ''a.csv'', file_size = 1\<rparr>]),
         Tick 0, Tick 0, Tick 0, Tick 0, Tick 0,
         Change (Some [\<lparr>file_name = ''b.csv'', file_size = 2\<rparr>]),
         Tick 0, Tick 1, Tick 0, Tick 1] initialState) = 20"
  by (simp add: run_def handleChange_file tick_def Let_def setUploadProgress_def
      clearInterval_def initialState_def)

text \<open>
  C2, as amended. Take any selection that supplies a file, by the selection control or by
  a drop, from any state; its timer has the identifier \<open>nextInterval s\<close>. Right after the
  selection the value shown is 0 and the timer's own \<open>progress\<close> is 0.

  As long as the timer is undisturbed (no later event supplies a file and no other timer
  fires), the value shown after any events is ten times the number of the timer's
  firings, capped at 100, and it never decreases along the run. In particular, when the
  timer fires \<open>k\<close> times in a row, the value shown is \<open>10 * k\<close> up to the tenth firing and
  stays at 100 afterwards: each of the first ten firings adds exactly 10, and 100 is
  shown from the tenth firing on and not before.

  Among any events at all, disturbing ones included, the timer's own \<open>progress\<close> is ten
  times the number of its firings, the timer is active before its tenth firing and is
  cleared by it, and each of its firings shows the value it has just reached.
\<close>

theorem upload_progress_animation:
  assumes "s' = handleChange fld (Some (f # fs)) s \<or> s' = handleDrop fld (f # fs) s"
  shows "uploadProgress s' = 0
     \<and> intervals s' (nextInterval s) = Some 0
     \<and> (\<forall>k. uploadProgress ((tick (nextInterval s) ^^ k) s') = 10 * min k 10)
     \<and> (\<forall>k<10. uploadProgress ((tick (nextInterval s) ^^ Suc k) s')
                  = uploadProgress ((tick (nextInterval s) ^^ k) s') + 10)
     \<and> (\<forall>j k. j \<le> k \<longrightarrow> uploadProgress ((tick (nextInterval s) ^^ j) s')
                          \<le> uploadProgress ((tick (nextInterval s) ^^ k) s'))
     \<and> (\<forall>k. (uploadProgress ((tick (nextInterval s) ^^ k) s') = 100) = (10 \<le> k))
     \<and> (\<forall>k. intervals ((tick (nextInterval s) ^^ k) s') (nextInterval s)
              = (if k < 10 then Some (10 * k) else None))
     \<and> (\<forall>es. intervals (run fld es s') (nextInterval s)
              = (if count_list es (Tick (nextInterval s)) < 10
                 then Some (10 * count_list es (Tick (nextInterval s))) else None))
     \<and> (\<forall>es. count_list es (Tick (nextInterval s)) < 10 \<longrightarrow>
              uploadProgress (run fld (es @ [Tick (nextInterval s)]) s')
                = 10 * count_list es (Tick (nextInterval s)) + 10)
     \<and> (\<forall>es. undisturbed (nextInterval s) es \<longrightarrow>
              uploadProgress (run fld es s')
                = 10 * min (count_list es (Tick (nextInterval s))) 10)
     \<and> (\<forall>es es'. undisturbed (nextInterval s) (es @ es') \<longrightarrow>
              uploadProgress (run fld es s') \<le> uploadProgress (run fld (es @ es') s'))"
proof -
  have start: "uploadProgress s' = 0" "intervals s' (nextInterval s) = Some 0"
    using assms by (auto simp add: handleChange_file handleDrop_file)
  have below: "nextInterval s < nextInterval s'"
    using assms by (auto simp add: handleChange_file handleDrop_file)
  note alone = ticks_of_fresh_timer [OF start]
  have "\<forall>k<10. uploadProgress ((tick (nextInterval s) ^^ Suc k) s')
                  = uploadProgress ((tick (nextInterval s) ^^ k) s') + 10"
    by (simp only: alone) simp
  moreover have "\<forall>j k. j \<le> k \<longrightarrow> uploadProgress ((tick (nextInterval s) ^^ j) s')
                          \<le> uploadProgress ((tick (nextInterval s) ^^ k) s')"
    by (simp only: alone) (simp add: min_def)
  moreover have "\<forall>k. (uploadProgress ((tick (nextInterval s) ^^ k) s') = 100) = (10 \<le> k)"
    by (simp only: alone) auto
  moreover have "\<forall>es. intervals (run fld es s') (nextInterval s)
              = (if count_list es (Tick (nextInterval s)) < 10
                 then Some (10 * count_list es (Tick (nextInterval s))) else None)"
    using own_progress_in_run [OF start(2) below] by blast
  moreover have "\<forall>es. count_list es (Tick (nextInterval s)) < 10 \<longrightarrow>
              uploadProgress (run fld (es @ [Tick (nextInterval s)]) s')
                = 10 * count_list es (Tick (nextInterval s)) + 10"
    using own_tick_displayed [OF start(2) below] by blast
  moreover have "\<forall>es. undisturbed (nextInterval s) es \<longrightarrow>
              uploadProgress (run fld es s')
                = 10 * min (count_list es (Tick (nextInterval s))) 10"
    using undisturbed_display [OF start below] by blast
  moreover have "\<forall>es es'. undisturbed (nextInterval s) (es @ es') \<longrightarrow>
              uploadProgress (run fld es s') \<le> uploadProgress (run fld (es @ es') s')"
    using undisturbed_display_mono [OF start below] by blast
  ultimately show ?thesis using start alone by blast
qed

theorem upload_progress_animation_witness:
  "uploadProgress (handleChange ''manifestFile''
      (Some [\<lparr>file_name = ''manifest.csv'', file_size = 2048\<rparr>]) initialState) = 0
   \<and> uploadProgress ((tick 0 ^^ 3) (handleChange ''manifestFile''
        (Some [\<lparr>file_name = ''manifest.csv'', file_size = 2048\<rparr>]) initialState)) = 30
   \<and> uploadProgress ((tick 0 ^^ 10) (handleChange ''manifestFile''
        (Some [\<lparr>file_name = ''manifest.csv'', file_size = 2048\<rparr>]) initialState)) = 100
   \<and> intervals ((tick 0 ^^ 9) (handleChange ''manifestFile''
        (Some [\<lparr>file_name = ''manifest.csv'', file_size = 2048\<rparr>]) initialState)) 0 = Some 90
   \<and> intervals ((tick 0 ^^ 10) (handleChange ''manifestFile''
        (Some [\<lparr>file_name = ''manifest.csv'', file_size = 2048\<rparr>]) initialState)) 0 = None
   \<and> uploadProgress (run ''manifestFile'' [Tick 0, DragOver, Tick 0]
        (handleChange ''manifestFile''
          (Some [\<lparr>file_name = ''manifest.csv'', file_size = 2048\<rparr>]) initialState)) = 20
   \<and> undisturbed 0 [Tick 0, DragOver, Tick 0, Drop [], DragLeave, Tick 0, Click]
   \<and> uploadProgress
        (run ''manifestFile'' [Tick 0, DragOver, Tick 0, Drop [], DragLeave, Tick 0, Click]
          (handleChange ''manifestFile''
            (Some [\<lparr>file_name = ''manifest.csv'', file_size = 2048\<rparr>]) initialState)) = 30"
proof -
  let ?s' = "handleChange ''manifestFile''
      (Some [\<lparr>file_name = ''manifest.csv'', file_size = 2048\<rparr>]) initialState"
  let ?es = "[Tick 0, DragOver, Tick 0, Drop [], DragLeave, Tick 0, Click]"
  have init: "nextInterval initialState = 0" by (simp add: initialState_def)
  note all = upload_progress_animation [OF disjI1 [OF refl], of "''manifestFile''"
      "\<lparr>file_name = ''manifest.csv'', file_size = 2048\<rparr>" "[]" initialState,
      unfolded init]
  from all have start: "uploadProgress ?s' = 0" by (elim conjE)
  from all have alone: "\<forall>k. uploadProgress ((tick 0 ^^ k) ?s') = 10 * min k 10"
    by (elim conjE)
  from all have timer:
    "\<forall>k. intervals ((tick 0 ^^ k) ?s') 0 = (if k < 10 then Some (10 * k) else None)"
    by (elim conjE)
  from all have among:
    "\<forall>es. count_list es (Tick 0) < 10 \<longrightarrow>
       uploadProgress (run ''manifestFile'' (es @ [Tick 0]) ?s') = 10 * count_list es (Tick 0) + 10"
    by (elim conjE)
  from all have quiet:
    "\<forall>es. undisturbed 0 es \<longrightarrow>
       uploadProgress (run ''manifestFile'' es ?s') = 10 * min (count_list es (Tick 0)) 10"
    by (elim conjE)
  have "count_list [Tick 0, DragOver] (Tick 0) < 10" by simp
  with among
  have "uploadProgress (run ''manifestFile'' ([Tick 0, DragOver] @ [Tick 0]) ?s')
          = 10 * count_list [Tick 0, DragOver] (Tick 0) + 10"
    by blast
  then have twenty: "uploadProgress (run ''manifestFile'' [Tick 0, DragOver, Tick 0] ?s') = 20"
    by simp
  have und: "undisturbed 0 ?es" by (simp add: undisturbed_def)
  with quiet
  have "uploadProgress (run ''manifestFile'' ?es ?s') = 10 * min (count_list ?es (Tick 0)) 10"
    by blast
  then have thirty: "uploadProgress (run ''manifestFile'' ?es ?s') = 30" by simp
  from start alone timer twenty und thirty show ?thesis by simp
qed

subsection \<open>C3: a drop selects like the selection control\<close>

text \<open>
  C3. For every drop payload with at least one file, \<open>handleDrop\<close> ends with the same
  \<open>fileInfo\<close>, the same \<open>uploadProgress\<close> and the same form-state entry of the field as
  \<open>handleChange\<close> on a file list that starts with the first file of the payload. The two
  resulting states differ in nothing but the hovering flag, which the drop clears.
\<close>

theorem drop_same_as_change:
  "fileInfo (handleDrop fld (f # fs) s) = fileInfo (handleChange fld (Some (f # gs)) s)
   \<and> uploadProgress (handleDrop fld (f # fs) s)
       = uploadProgress (handleChange fld (Some (f # gs)) s)
   \<and> formValues (handleDrop fld (f # fs) s) fld
       = formValues (handleChange fld (Some (f # gs)) s) fld
   \<and> handleDrop fld (f # fs) s = (handleChange fld (Some (f # gs)) s)\<lparr>dragging := False\<rparr>"
  by (simp add: handleChange_file handleDrop_file)

subsection \<open>C4: the size shown\<close>

text \<open>
  C4. After a file of \<open>file_size f\<close> bytes is selected, by the selection control or by a
  drop, the number shown before \<open>KB\<close> is \<open>round (file_size f / 1024)\<close>, the nearest
  integer with a half rounded up. In every state the number shown is the rounding of the
  size held in \<open>fileInfo\<close>.
\<close>

theorem displayed_size_rounded:
  "map_option shown_kb (renderFileInfo (handleChange fld (Some (f # fs)) s))
     = Some (round (real (file_size f) / 1024))
   \<and> map_option shown_kb (renderFileInfo (handleDrop fld (f # fs) s))
     = Some (round (real (file_size f) / 1024))
   \<and> map_option shown_kb (renderFileInfo s)
     = map_option (\<lambda>fi. round (real (size_bytes fi) / 1024)) (fileInfo s)"
  by (simp add: handleChange_file handleDrop_file renderFileInfo_def Math_round_round
      split: option.split)

subsection \<open>C5 to C8: the validation rules\<close>

text \<open>
  C5. Under the rule of \<open>importName\<close>, \<open>Import ABC\<close> passes, \<open>Import XYZ\<close> fails with
  the invalid-option error, and the empty string fails with the required error.
\<close>

theorem importName_validation:
  "validateField validationSchema ''importName'' (Str ''Import ABC'') = None
   \<and> validateField validationSchema ''importName'' (Str ''Import XYZ'')
        = Some (InvalidOptionError ''Invalid Import Name'')
   \<and> validateField validationSchema ''importName'' (Str [])
        = Some (RequiredError ''Import name is required'')"
  by (simp add: validateField_def validationSchema_def)

text \<open>
  C6. Under the rule of \<open>manifestFile\<close>, \<open>null\<close> fails the required check and every file
  object passes.
\<close>

theorem manifestFile_validation:
  "validateField validationSchema ''manifestFile'' Null
     = Some (RequiredError ''A file is required'')
   \<and> validateField validationSchema ''manifestFile'' (FileV f) = None"
  by (simp add: validateField_def validationSchema_def)

text \<open>
  C7. Under the rule of \<open>toleranceWindow\<close>, \<open>true\<close> and \<open>false\<close> both pass and the unset
  value fails with the required error; so, of the values a boolean field can take (a
  boolean, or unset, written \<open>ob\<close> below), exactly the unset one fails.
\<close>

theorem toleranceWindow_validation:
  "validateField validationSchema ''toleranceWindow'' (Bool True) = None
   \<and> validateField validationSchema ''toleranceWindow'' (Bool False) = None
   \<and> validateField validationSchema ''toleranceWindow'' Undefined
        = Some (RequiredError ''Tolerance window selection is required'')
   \<and> (validateField validationSchema ''toleranceWindow''
          (case ob of None \<Rightarrow> Undefined | Some b \<Rightarrow> Bool b) = None)
       = (ob \<noteq> None)"
  by (cases ob) (simp_all add: validateField_def validationSchema_def)

text \<open>
  C8. Each of \<open>testingCenter1\<close> to \<open>testingCenter4\<close> is a field of \<open>initialValues\<close>, has
  no rule in \<open>validationSchema\<close>, and passes validation with every value.
\<close>

theorem testingCenters_unvalidated:
  assumes "fld \<in> set testingCenters"
  shows "fld \<in> fst ` set initialValues
     \<and> map_of validationSchema fld = None
     \<and> validateField validationSchema fld v = None"
  using assms
  by (auto simp add: validateField_def validationSchema_def testingCenters_def
      initialValues_def)

theorem testingCenters_unvalidated_witness:
  "''testingCenter3'' \<in> set testingCenters
   \<and> ''testingCenter3'' \<in> fst ` set initialValues
   \<and> map_of validationSchema ''testingCenter3'' = None
   \<and> validateField validationSchema ''testingCenter3'' (Str ''not a center'') = None
   \<and> validateField validationSchema ''testingCenter3'' Null = None"
proof -
  have h: "''testingCenter3'' \<in> set testingCenters" by (simp add: testingCenters_def)
  show ?thesis
    using h testingCenters_unvalidated [OF h, of "Str ''not a center''"]
      testingCenters_unvalidated [OF h, of Null]
    by simp
qed

subsection \<open>C9: the hovering flag\<close>

text \<open>
  C9. \<open>handleDragOver\<close> sets the hovering flag \<open>dragging\<close> to true and is idempotent:
  it changes nothing when the flag is already true, and applying it twice gives the
  state of applying it once. \<open>handleDragLeave\<close> sets the flag to false from every prior
  state. Neither touches any other part of the state.
\<close>

theorem drag_flag_handlers:
  "dragging (handleDragOver s) = True
   \<and> (dragging s \<longrightarrow> handleDragOver s = s)
   \<and> handleDragOver (handleDragOver s) = handleDragOver s
   \<and> handleDragOver s = s\<lparr>dragging := True\<rparr>
   \<and> dragging (handleDragLeave s) = False
   \<and> handleDragLeave s = s\<lparr>dragging := False\<rparr>"
  by (simp add: handleDragOver_def handleDragLeave_def setDragging_def)

theorem drag_flag_handlers_witness:
  "dragging (initialState\<lparr>dragging := True\<rparr>)
   \<and> handleDragOver (initialState\<lparr>dragging := True\<rparr>) = initialState\<lparr>dragging := True\<rparr>
   \<and> dragging (handleDragOver initialState) = True
   \<and> dragging (handleDragLeave (handleDragOver initialState)) = False"
  using drag_flag_handlers [of "initialState\<lparr>dragging := True\<rparr>"]
    drag_flag_handlers [of initialState]
    drag_flag_handlers [of "handleDragOver initialState"]
  by simp

subsection \<open>C10: the descriptor shown agrees with the form state\<close>

text \<open>
  C10. After a selection that supplies at least one file, by the selection control or by
  a drop, the form-state entry of the field holds the first file, and \<open>fileInfo\<close> holds
  the name and the size of that same file.
\<close>

theorem selection_consistent:
  assumes "s' = handleChange fld (Some (f # fs)) s \<or> s' = handleDrop fld (f # fs) s"
  shows "formValues s' fld = FileV f
     \<and> map_option name (fileInfo s') = Some (file_name f)
     \<and> map_option size_bytes (fileInfo s') = Some (file_size f)"
  using assms by (auto simp add: handleChange_file handleDrop_file)

theorem selection_consistent_witness:
  "formValues (handleDrop ''manifestFile''
       [\<lparr>file_name = ''manifest.csv'', file_size = 2048\<rparr>,
        \<lparr>file_name = ''other.csv'', file_size = 7\<rparr>] initialState) ''manifestFile''
     = FileV \<lparr>file_name = ''manifest.csv'', file_size = 2048\<rparr>
   \<and> map_option name (fileInfo (handleDrop ''manifestFile''
       [\<lparr>file_name = ''manifest.csv'', file_size = 2048\<rparr>,
        \<lparr>file_name = ''other.csv'', file_size = 7\<rparr>] initialState)) = Some ''manifest.csv''
   \<and> map_option size_bytes (fileInfo (handleDrop ''manifestFile''
       [\<lparr>file_name = ''manifest.csv'', file_size = 2048\<rparr>,
        \<lparr>file_name = ''other.csv'', file_size = 7\<rparr>] initialState)) = Some 2048"
  using selection_consistent [OF disjI2 [OF refl], of "''manifestFile''"
      "\<lparr>file_name = ''manifest.csv'', file_size = 2048\<rparr>"
      "[\<lparr>file_name = ''other.csv'', file_size = 7\<rparr>]" initialState]
  by simp

end
